theory Spec2Isabelle
  imports Main
begin

section \<open>Strings\<close>

text \<open>
  Go's \<^verbatim>\<open>strings.Split(s, sep)\<close> for a separator of one byte, which is what both call
  sites of \<^verbatim>\<open>Execute\<close> pass (\<^verbatim>\<open>" "\<close> and \<^verbatim>\<open>"="\<close>): the pieces of \<open>s\<close> between
  the separators, empty pieces included. The result is never the empty list.
\<close>

fun strings_Split :: "string \<Rightarrow> char \<Rightarrow> string list" where
  "strings_Split [] sep = [[]]"
| "strings_Split (c # cs) sep =
     (if c = sep then [] # strings_Split cs sep
      else (case strings_Split cs sep of
              [] \<Rightarrow> [[c]]
            | p # ps \<Rightarrow> (c # p) # ps))"

text \<open>Go's \<^verbatim>\<open>strings.Join(elems, sep)\<close>.\<close>

fun strings_Join :: "string list \<Rightarrow> string \<Rightarrow> string" where
  "strings_Join [] sep = []"
| "strings_Join [a] sep = a"
| "strings_Join (a # b # bs) sep = a @ sep @ strings_Join (b # bs) sep"

text \<open>
  \<^verbatim>\<open>fmt.Println\<close>: the operands separated by one space, then a newline.
\<close>

definition Println :: "string list \<Rightarrow> string" where
  "Println operands = strings_Join operands '' '' @ [CHR 0x0A]"

section \<open>Errors\<close>

text \<open>
  The error values that occur: the two errors of a context, the \<^verbatim>\<open>*exec.ExitError\<close> of
  \<^verbatim>\<open>cmd.Wait\<close> with the value of its \<^verbatim>\<open>ExitCode()\<close>, a failure of \<^verbatim>\<open>cmd.Start\<close>, the
  errors of a write (a destination's own, and \<^verbatim>\<open>io.ErrShortWrite\<close>), and an error made by
  \<^verbatim>\<open>fmt.Errorf\<close> with its message.
\<close>

datatype error =
    Canceled
  | DeadlineExceeded
  | ExitError int
  | StartError string
  | WriteError
  | ErrShortWrite
  | Errorf string

section \<open>Output destinations\<close>

text \<open>
  An \<^verbatim>\<open>io.Writer\<close> is modelled by what it has received so far and by the number of
  bytes it still accepts: \<open>None\<close> for a destination that never fails (a
  \<^verbatim>\<open>bytes.Buffer\<close>), \<open>Some k\<close> for one that takes \<open>k\<close> more bytes and then fails (a full
  disk; a closed file has \<open>Some 0\<close>). A failing write takes the bytes that fit and returns
  their number with an error, as the contract of \<^verbatim>\<open>io.Writer\<close> asks.
\<close>

datatype writer = Writer (written: string) (room: "nat option")

definition writer_Write :: "writer \<Rightarrow> string \<Rightarrow> writer \<times> nat \<times> error option" where
  "writer_Write w p =
     (case room w of
        None \<Rightarrow> (Writer (written w @ p) None, length p, None)
      | Some k \<Rightarrow>
          if length p \<le> k
          then (Writer (written w @ p) (Some (k - length p)), length p, None)
          else (Writer (written w @ take k p) (Some 0), k, Some WriteError))"

definition bytes_Buffer :: writer where
  "bytes_Buffer = Writer [] None"

text \<open>
  The four kinds of destination of a stream, in the order in which \<^verbatim>\<open>Execute\<close> appends
  them to its list of writers. The destinations are taken to be distinct objects, each
  with a state of its own.
\<close>

datatype dest = RawFile | Buffer | ProcessStdio | CallerSink

text \<open>
  \<^verbatim>\<open>io.MultiWriter(writers...).Write(p)\<close> of Go's standard library: the writers are
  written one at a time, in the order of the list; at the first writer that returns an
  error or writes short, the write stops and returns that error, and the writers after
  it are not written.
\<close>

fun multiWriter_Write ::
  "(dest \<times> writer) list \<Rightarrow> string \<Rightarrow> (dest \<times> writer) list \<times> nat \<times> error option" where
  "multiWriter_Write [] p = ([], length p, None)"
| "multiWriter_Write ((d, w) # ws) p =
     (case writer_Write w p of
        (w', n, Some e) \<Rightarrow> ((d, w') # ws, n, Some e)
      | (w', n, None) \<Rightarrow>
          if n \<noteq> length p then ((d, w') # ws, n, Some ErrShortWrite)
          else (case multiWriter_Write ws p of (ws', r) \<Rightarrow> ((d, w') # ws', r)))"

text \<open>
  The copying goroutine that \<^verbatim>\<open>os/exec\<close> starts for a stream whose writer is not a
  file: \<^verbatim>\<open>io.Copy\<close> from the pipe to the writer. The bytes of the child arrive in
  chunks; each chunk is written once, and the copy ends at the first failed write.
\<close>

fun io_Copy ::
  "(dest \<times> writer) list \<Rightarrow> string list \<Rightarrow> (dest \<times> writer) list \<times> error option" where
  "io_Copy ws [] = (ws, None)"
| "io_Copy ws (p # ps) =
     (case multiWriter_Write ws p of
        (ws', n, Some e) \<Rightarrow> (ws', Some e)
      | (ws', n, None) \<Rightarrow>
          if n \<noteq> length p then (ws', Some ErrShortWrite) else io_Copy ws' ps)"

text \<open>What a destination of the list has received.\<close>

definition delivered :: "dest \<Rightarrow> (dest \<times> writer) list \<Rightarrow> string option" where
  "delivered d ws = map_option written (map_of ws d)"

text \<open>
  \<^verbatim>\<open>stdoutBuff.String()\<close>: the content of the internal buffer, which stays empty when it
  is not among the writers.
\<close>

definition buffer_String :: "(dest \<times> writer) list \<Rightarrow> string" where
  "buffer_String ws = (case map_of ws Buffer of Some b \<Rightarrow> written b | None \<Rightarrow> [])"

section \<open>Tasks and results\<close>

record ExecTask =
  Command :: string
  Args :: "string list"
  Shell :: bool
  Env :: "string list"
  Cwd :: string
  Stdin :: "string option"
  PrintCommand :: bool
  StreamStdio :: bool
  DisableStdioBuffer :: bool
  StdOutWriter :: "writer option"
  StdErrWriter :: "writer option"
  Timeout :: int
  OutputFile :: "writer option"
  ErrorFile :: "writer option"

record ExecResult =
  Stdout :: string
  Stderr :: string
  ExitCode :: int
  Timedout :: bool
  Cancelled :: bool
  Duration :: int

text \<open>The zero values \<^verbatim>\<open>ExecTask{}\<close> and \<^verbatim>\<open>ExecResult{}\<close>.\<close>

definition ExecTask_zero :: ExecTask where
  "ExecTask_zero =
     \<lparr>Command = [], Args = [], Shell = False, Env = [], Cwd = [], Stdin = None,
      PrintCommand = False, StreamStdio = False, DisableStdioBuffer = False,
      StdOutWriter = None, StdErrWriter = None, Timeout = 0,
      OutputFile = None, ErrorFile = None\<rparr>"

definition ExecResult_zero :: ExecResult where
  "ExecResult_zero =
     \<lparr>Stdout = [], Stderr = [], ExitCode = 0, Timedout = False, Cancelled = False,
      Duration = 0\<rparr>"

section \<open>Contexts\<close>

text \<open>
  A \<^verbatim>\<open>context.Context\<close> is given by the instant at which its owner cancels it and by
  its deadline, each of them optional. Instants and durations are counted in
  nanoseconds. \<^verbatim>\<open>ctx.Err()\<close> at an instant is \<open>None\<close> until the first of the two has
  come, and from then on the error of that one (a deadline that falls on the instant of
  the cancellation is taken to come first).
\<close>

record Context =
  cancel_at :: "nat option"
  deadline :: "nat option"

definition ctx_Err :: "Context \<Rightarrow> nat \<Rightarrow> error option" where
  "ctx_Err c t =
     (case (deadline c, cancel_at c) of
        (Some d, Some k) \<Rightarrow>
          if k < d then (if k \<le> t then Some Canceled else None)
          else (if d \<le> t then Some DeadlineExceeded else None)
      | (Some d, None) \<Rightarrow> if d \<le> t then Some DeadlineExceeded else None
      | (None, Some k) \<Rightarrow> if k \<le> t then Some Canceled else None
      | (None, None) \<Rightarrow> None)"

text \<open>The instant at which the context expires, and the error it has from then on.\<close>

definition ctx_done_at :: "Context \<Rightarrow> nat option" where
  "ctx_done_at c =
     (case (deadline c, cancel_at c) of
        (Some d, Some k) \<Rightarrow> Some (min d k)
      | (Some d, None) \<Rightarrow> Some d
      | (None, Some k) \<Rightarrow> Some k
      | (None, None) \<Rightarrow> None)"


text \<open>
  \<^verbatim>\<open>context.WithTimeout(parent, timeout)\<close> called at the instant \<open>now\<close>: the derived
  context is cancelled with its parent, and its deadline is the earlier of the parent's
  and \<open>now + timeout\<close>.
\<close>

definition WithTimeout :: "Context \<Rightarrow> nat \<Rightarrow> int \<Rightarrow> Context" where
  "WithTimeout parent now timeout =
     parent\<lparr>deadline :=
       (case deadline parent of
          None \<Rightarrow> Some (now + nat timeout)
        | Some d \<Rightarrow> Some (min d (now + nat timeout)))\<rparr>"

section \<open>Commands and child processes\<close>

text \<open>
  The fields of \<^verbatim>\<open>exec.Cmd\<close> that \<^verbatim>\<open>Execute\<close> sets. \<open>cmd_Env = None\<close> is the nil slice,
  with which the child inherits the environment of the current process.
\<close>

record Cmd =
  cmd_Path :: string
  cmd_Args :: "string list"
  cmd_Env :: "string list option"
  cmd_Dir :: string
  cmd_Stdin :: "string option"

text \<open>
  \<^verbatim>\<open>exec.CommandContext(ctx, name, arg...)\<close>: the argument vector is the name followed
  by the arguments. The path is the name as it was given; the search for a bare name on
  the search path belongs to the process creation, whose failure is a start error.
\<close>

definition exec_CommandContext :: "string \<Rightarrow> string list \<Rightarrow> Cmd" where
  "exec_CommandContext name arg =
     \<lparr>cmd_Path = name, cmd_Args = name # arg, cmd_Env = None, cmd_Dir = [],
      cmd_Stdin = None\<rparr>"

text \<open>
  What the operating system makes of a command: whether the process can be created, for
  how long the child runs when it is left alone, how it ends then, and the bytes it
  writes to its two streams, in the chunks in which the copying goroutines read them.
\<close>

datatype exit_state = Exited int | Signaled

record child =
  start_error :: "error option"
  runtime :: nat
  final :: exit_state
  out_chunks :: "string list"
  err_chunks :: "string list"

text \<open>
  \<^verbatim>\<open>cmd.Start()\<close> at an instant: it fails with the error of the lookup of the
  executable, else with the error of a context that has expired by then, else with the
  error of the process creation.
\<close>

definition cmd_Start :: "Context \<Rightarrow> nat \<Rightarrow> child \<Rightarrow> error option" where
  "cmd_Start ctx t ch =
     (case start_error ch of
        Some e \<Rightarrow> Some e
      | None \<Rightarrow> ctx_Err ctx t)"

text \<open>
  The end of a process started at \<open>t\<close> under a context: when the context expires while
  the child still runs, \<^verbatim>\<open>os/exec\<close> kills the child at that instant; else the child ends
  by itself.
\<close>

definition process_end :: "Context \<Rightarrow> nat \<Rightarrow> child \<Rightarrow> exit_state \<times> nat" where
  "process_end ctx t ch =
     (case ctx_done_at ctx of
        None \<Rightarrow> (final ch, t + runtime ch)
      | Some d \<Rightarrow>
          if d < t + runtime ch then (Signaled, max d t)
          else (final ch, t + runtime ch))"

text \<open>
  The error of \<^verbatim>\<open>cmd.Wait()\<close>: an \<^verbatim>\<open>*exec.ExitError\<close> when the process did not exit with
  status 0 (its \<^verbatim>\<open>ExitCode()\<close> is the status, and \<open>-1\<close> for a process ended by a signal),
  else the first error of the copying goroutines.
\<close>

definition cmd_Wait :: "exit_state \<Rightarrow> error option \<Rightarrow> error option \<Rightarrow> error option" where
  "cmd_Wait st outErr errErr =
     (case st of
        Signaled \<Rightarrow> Some (ExitError (- 1))
      | Exited n \<Rightarrow>
          if n \<noteq> 0 then Some (ExitError n)
          else (case outErr of Some e \<Rightarrow> Some e | None \<Rightarrow> errErr))"

section \<open>The world around a call\<close>

text \<open>
  The result of \<^verbatim>\<open>os.Stat\<close> is its error: \<open>None\<close> is nil (the path names a file), and a
  failure carries the error number of the system call. \<^verbatim>\<open>ENOENT\<close> and \<^verbatim>\<open>ENOTDIR\<close> both
  tell that the path names no file (a component is missing, or a component that should
  be a directory is not one); \<^verbatim>\<open>EACCES\<close> tells nothing about the file, which may well
  exist behind a directory that cannot be searched. \<^verbatim>\<open>os.IsNotExist\<close> holds of \<^verbatim>\<open>ENOENT\<close>
  alone.
\<close>

datatype errno = ENOENT | ENOTDIR | EACCES | ELOOP | ENAMETOOLONG



text \<open>
  Everything \<^verbatim>\<open>Execute\<close> reads from outside its arguments: the lookup of an executable
  on the search path, the environment of the current process, the standard streams of
  the current process, the file system as \<^verbatim>\<open>os.Stat\<close> sees it, the operating system's
  answer to a command, and the clock: the instant of the call, the time that passes
  before each later reading of the context, and the time that \<^verbatim>\<open>cmd.Wait()\<close> still takes
  after the process has ended (it also waits for the copying goroutines).
\<close>

record world =
  lookPath :: "string \<Rightarrow> bool"
  environ :: "string list"
  os_Stdout :: writer
  os_Stderr :: writer
  os_Stat :: "string \<Rightarrow> errno option"
  os_exec :: "Cmd \<Rightarrow> child"
  entered :: nat
  lag_check :: nat
  lag_start :: nat
  lag_wait :: nat
  lag_timedout :: nat
  lag_cancelled :: nat
  lag_err :: nat

section \<open>Execute\<close>

text \<open>Lines 102 to 140: the executable and its arguments.\<close>

definition command_line :: "ExecTask \<Rightarrow> world \<Rightarrow> string \<times> string list" where
  "command_line et w =
     (if Shell et then
        (let command = (if lookPath w ''sh'' then ''sh'' else ''/usr/bin/sh'')
         in if length (Args et) = 0 then
              (let startArgs = strings_Split (Command et) CHR '' '';
                   script = strings_Join startArgs '' ''
               in (command, [''-c''] @ [script]))
            else
              (let script = strings_Join (Args et) '' ''
               in (command, [''-c''] @ [Command et @ '' '' @ script])))
      else (Command et, Args et))"

text \<open>
  Lines 145 to 160: the environment of the child. The key of an entry is
  \<^verbatim>\<open>strings.Split(env, "=")[0]\<close>; the slice that \<^verbatim>\<open>strings.Split\<close> returns is never
  empty, so the index is in range. The first loop records the keys of the overrides in
  a map and appends the overrides; the second appends the entries of the current
  environment whose key is not in the map.
\<close>

definition env_key :: "string \<Rightarrow> string" where
  "env_key env = hd (strings_Split env CHR ''='')"

fun override_loop ::
  "string list \<Rightarrow> (string \<rightharpoonup> bool) \<times> string list \<Rightarrow> (string \<rightharpoonup> bool) \<times> string list" where
  "override_loop [] st = st"
| "override_loop (env # rest) (overrides, cmdEnv) =
     override_loop rest (overrides(env_key env \<mapsto> True), cmdEnv @ [env])"

fun inherit_loop :: "string list \<Rightarrow> (string \<rightharpoonup> bool) \<Rightarrow> string list \<Rightarrow> string list" where
  "inherit_loop [] overrides cmdEnv = cmdEnv"
| "inherit_loop (env # rest) overrides cmdEnv =
     inherit_loop rest overrides
       (if overrides (env_key env) = None then cmdEnv @ [env] else cmdEnv)"

definition child_env :: "ExecTask \<Rightarrow> world \<Rightarrow> string list option" where
  "child_env et w =
     (if 0 < length (Env et) then
        (case override_loop (Env et) (Map.empty, []) of
           (overrides, cmdEnv) \<Rightarrow> Some (inherit_loop (environ w) overrides cmdEnv))
      else None)"

text \<open>Lines 142 to 163: the command handed to process creation.\<close>

definition build_Cmd :: "ExecTask \<Rightarrow> world \<Rightarrow> Cmd" where
  "build_Cmd et w =
     (case command_line et w of
        (command, commandArgs) \<Rightarrow>
          (exec_CommandContext command commandArgs)
            \<lparr>cmd_Env := child_env et w, cmd_Dir := Cwd et, cmd_Stdin := Stdin et\<rparr>)"

text \<open>Lines 165 to 197: the writers of the two streams, in the order of the appends.\<close>

definition stdoutWriters :: "ExecTask \<Rightarrow> world \<Rightarrow> (dest \<times> writer) list" where
  "stdoutWriters et w =
     (case OutputFile et of Some f \<Rightarrow> [(RawFile, f)] | None \<Rightarrow> [])
     @ (if \<not> DisableStdioBuffer et then [(Buffer, bytes_Buffer)] else [])
     @ (if StreamStdio et then [(ProcessStdio, os_Stdout w)] else [])
     @ (case StdOutWriter et of Some s \<Rightarrow> [(CallerSink, s)] | None \<Rightarrow> [])"

definition stderrWriters :: "ExecTask \<Rightarrow> world \<Rightarrow> (dest \<times> writer) list" where
  "stderrWriters et w =
     (case ErrorFile et of Some f \<Rightarrow> [(RawFile, f)] | None \<Rightarrow> [])
     @ (if \<not> DisableStdioBuffer et then [(Buffer, bytes_Buffer)] else [])
     @ (if StreamStdio et then [(ProcessStdio, os_Stderr w)] else [])
     @ (case StdErrWriter et of Some s \<Rightarrow> [(CallerSink, s)] | None \<Rightarrow> [])"

text \<open>
  What a call leaves behind: the two values it returns, the lines it printed, the
  command on which \<^verbatim>\<open>cmd.Start()\<close> was called (\<open>None\<close> when the call returned before),
  and the destinations of the two streams as the call leaves them.
\<close>

record outcome =
  ret :: ExecResult
  err :: "error option"
  printed :: "string list"
  spawned :: "Cmd option"
  stdout_dests :: "(dest \<times> writer) list"
  stderr_dests :: "(dest \<times> writer) list"

text \<open>
  Lines 79 to 83: with a positive timeout, the context of the call is replaced by one
  derived from it with that timeout.
\<close>

definition task_context :: "ExecTask \<Rightarrow> Context \<Rightarrow> world \<Rightarrow> Context" where
  "task_context et ctx0 w =
     (if 0 < Timeout et then WithTimeout ctx0 (entered w) (Timeout et) else ctx0)"

text \<open>
  \<^verbatim>\<open>ExecTask.Execute\<close>. The context is read at line 94 (the readings of lines 98 and 99
  follow a reading that was not nil, and so repeat it), and once each at lines 218, 219
  and 220, in this order. The clock of line 206 is read when \<^verbatim>\<open>cmd.Wait()\<close> has
  returned.
\<close>

definition Execute :: "ExecTask \<Rightarrow> Context \<Rightarrow> world \<Rightarrow> outcome" where
  "Execute et ctx0 w =
     (let ctx = task_context et ctx0 w;
          argsSt = (if 0 < length (Args et) then strings_Join (Args et) '' '' else []);
          out = (if PrintCommand et then [Println [''exec: '', Command et, argsSt]] else []);
          t_check = entered w + lag_check w
      in if ctx_Err ctx t_check \<noteq> None then
           \<lparr>ret = ExecResult_zero
                    \<lparr>ExitCode := - 1,
                     Cancelled := (ctx_Err ctx t_check = Some Canceled)\<rparr>,
            err = ctx_Err ctx t_check,
            printed = out, spawned = None, stdout_dests = [], stderr_dests = []\<rparr>
         else
           (let cmd = build_Cmd et w;
                stdoutW = stdoutWriters et w;
                stderrW = stderrWriters et w;
                execStart = t_check + lag_start w;
                ch = os_exec w cmd
            in case cmd_Start ctx execStart ch of
                 Some startErr \<Rightarrow>
                   \<lparr>ret = ExecResult_zero, err = Some startErr,
                    printed = out, spawned = Some cmd,
                    stdout_dests = stdoutW, stderr_dests = stderrW\<rparr>
               | None \<Rightarrow>
                   (case io_Copy stdoutW (out_chunks ch) of (stdoutW', outErr) \<Rightarrow>
                    case io_Copy stderrW (err_chunks ch) of (stderrW', errErr) \<Rightarrow>
                    case process_end ctx execStart ch of (st, ended) \<Rightarrow>
                      (let execErr = cmd_Wait st outErr errErr;
                           execEnd = ended + lag_wait w;
                           exitCode = (case execErr of Some (ExitError c) \<Rightarrow> c | _ \<Rightarrow> 0);
                           t1 = execEnd + lag_timedout w;
                           t2 = t1 + lag_cancelled w;
                           t3 = t2 + lag_err w
                       in \<lparr>ret = \<lparr>Stdout = buffer_String stdoutW',
                                  Stderr = buffer_String stderrW',
                                  ExitCode = exitCode,
                                  Timedout = (ctx_Err ctx t1 = Some DeadlineExceeded),
                                  Cancelled = (ctx_Err ctx t2 = Some Canceled),
                                  Duration = int execEnd - int execStart\<rparr>,
                           err = ctx_Err ctx t3,
                           printed = out, spawned = Some cmd,
                           stdout_dests = stdoutW', stderr_dests = stderrW'\<rparr>))))"

section \<open>The script helper\<close>

text \<open>
  A \<^verbatim>\<open>ShellScriptOption\<close> is a function that changes a task (in the source through a
  pointer; here it returns the changed task).
\<close>

type_synonym ShellScriptOption = "ExecTask \<Rightarrow> ExecTask"

definition WithEnv :: "string list \<Rightarrow> ShellScriptOption" where
  "WithEnv env = (\<lambda>et. et\<lparr>Env := env\<rparr>)"

definition WithShell :: "string \<Rightarrow> ShellScriptOption" where
  "WithShell shell = (\<lambda>et. if shell \<noteq> [] then et\<lparr>Command := shell, Shell := True\<rparr> else et)"



definition WithOutputFiles :: "writer option \<Rightarrow> writer option \<Rightarrow> ShellScriptOption" where
  "WithOutputFiles stdout stderr = (\<lambda>et. et\<lparr>OutputFile := stdout, ErrorFile := stderr\<rparr>)"

text \<open>The default task of \<^verbatim>\<open>ExecuteShellScript\<close> (lines 52 to 56).\<close>

definition default_task :: "string \<Rightarrow> ExecTask" where
  "default_task scriptPath = ExecTask_zero\<lparr>Command := ''sh'', Args := [scriptPath], Shell := True\<rparr>"



section \<open>Notions used in the statements\<close>

text \<open>The content of each destination of a list, with its kind.\<close>

definition received :: "(dest \<times> writer) list \<Rightarrow> (dest \<times> string) list" where
  "received ws = map (\<lambda>(d, wr). (d, written wr)) ws"

text \<open>The child that the operating system makes of the command of a task.\<close>

definition the_child :: "ExecTask \<Rightarrow> world \<Rightarrow> child" where
  "the_child et w = os_exec w (build_Cmd et w)"

text \<open>
  A call gets a process running when the context has not expired at line 94 and
  \<^verbatim>\<open>cmd.Start()\<close> returns nil at line 199.
\<close>

definition process_started :: "ExecTask \<Rightarrow> Context \<Rightarrow> world \<Rightarrow> bool" where
  "process_started et ctx0 w =
     (ctx_Err (task_context et ctx0 w) (entered w + lag_check w) = None \<and>
      cmd_Start (task_context et ctx0 w) (entered w + lag_check w + lag_start w)
        (the_child et w) = None)"

text \<open>
  A destination accepts \<open>n\<close> more bytes when it never fails or has room for them; the
  destinations of a stream accept the stream when each of them accepts all its bytes.
\<close>

definition accepts :: "writer \<Rightarrow> nat \<Rightarrow> bool" where
  "accepts wr n = (case room wr of None \<Rightarrow> True | Some k \<Rightarrow> n \<le> k)"

definition all_accept :: "(dest \<times> writer) list \<Rightarrow> string list \<Rightarrow> bool" where
  "all_accept ws ps = list_all (\<lambda>(d, wr). accepts wr (length (concat ps))) ws"

section \<open>Concrete tasks, contexts and worlds\<close>

text \<open>A context that never expires (\<^verbatim>\<open>context.Background()\<close>).\<close>

definition background :: Context where
  "background = \<lparr>cancel_at = None, deadline = None\<rparr>"

text \<open>
  A child that runs for 50 ns, writes two chunks to its standard output and one to its
  standard error, and exits with status 0; and a world in which every command gives
  this child and \<^verbatim>\<open>sh\<close> is on the search path. The script \<^verbatim>\<open>/tmp/run.sh\<close> exists;
  \<^verbatim>\<open>/etc/passwd/x\<close> names no file, since \<^verbatim>\<open>/etc/passwd\<close> is not a directory; the
  directory of \<^verbatim>\<open>/root/bin/run.sh\<close> cannot be searched; every other path is missing.
\<close>

definition sample_child :: child where
  "sample_child =
     \<lparr>start_error = None, runtime = 50, final = Exited 0,
      out_chunks = [''hi'', '' there''], err_chunks = [''warn'']\<rparr>"

definition sample_world :: world where
  "sample_world =
     \<lparr>lookPath = (\<lambda>name. True),
      environ = [''PATH=/bin'', ''HOME=/root'', ''LANG=C''],
      os_Stdout = Writer [] None,
      os_Stderr = Writer [] None,
      os_Stat = (\<lambda>p. if p = ''/tmp/run.sh'' then None
                     else if p = ''/etc/passwd/x'' then Some ENOTDIR
                     else if p = ''/root/bin/run.sh'' then Some EACCES
                     else Some ENOENT),
      os_exec = (\<lambda>c. sample_child),
      entered = 100, lag_check = 1, lag_start = 2, lag_wait = 4,
      lag_timedout = 1, lag_cancelled = 1, lag_err = 1\<rparr>"

text \<open>A direct command whose path and first argument contain spaces.\<close>

definition direct_task :: ExecTask where
  "direct_task = ExecTask_zero\<lparr>Command := ''/opt/my tools/run'', Args := [''a b'', ''c'']\<rparr>"

text \<open>Two shell tasks, with and without arguments.\<close>

definition shell_task_args :: ExecTask where
  "shell_task_args = ExecTask_zero\<lparr>Command := ''ls -l'', Args := [''/tmp'', ''/var''], Shell := True\<rparr>"

definition shell_task_plain :: ExecTask where
  "shell_task_plain = ExecTask_zero\<lparr>Command := ''echo  a | wc'', Shell := True\<rparr>"

text \<open>A task that overrides two variables, one of them set in the sample world.\<close>

definition env_task :: ExecTask where
  "env_task = ExecTask_zero\<lparr>Command := ''env'', Env := [''HOME=/tmp'', ''FOO=1'']\<rparr>"



text \<open>A context whose deadline, the instant 10, has passed when the sample world calls.\<close>

definition expired_deadline :: Context where
  "expired_deadline = \<lparr>cancel_at = None, deadline = Some 10\<rparr>"

text \<open>
  A task with the internal buffer, the streams of the process and a sink of the caller
  for its standard output.
\<close>

definition streaming_task :: ExecTask where
  "streaming_task =
     ExecTask_zero\<lparr>Command := ''printf'', StreamStdio := True,
       StdOutWriter := Some (Writer [] None)\<rparr>"

text \<open>
  A task without the internal buffer whose standard output goes to a file with room for
  100 bytes, to the standard output of the process and to a sink of the caller.
\<close>

definition unbuffered_fanout_task :: ExecTask where
  "unbuffered_fanout_task =
     ExecTask_zero\<lparr>Command := ''printf'', DisableStdioBuffer := True, StreamStdio := True,
       OutputFile := Some (Writer [] (Some 100)),
       StdOutWriter := Some (Writer ''log: '' None),
       StdErrWriter := Some (Writer [] None)\<rparr>"

text \<open>The sample world with the standard output of the process closed.\<close>

definition closed_stdout_world :: world where
  "closed_stdout_world = sample_world\<lparr>os_Stdout := Writer [] (Some 0)\<rparr>"

section \<open>Strings: splitting and joining\<close>

lemma strings_Split_not_Nil: "strings_Split s sep \<noteq> []"
  by (induction s) (auto split: list.splits)

lemma strings_Join_Cons_elem:
  "strings_Join ((c # p) # ps) sep = c # strings_Join (p # ps) sep"
  by (cases ps) simp_all

lemma strings_Join_Split: "strings_Join (strings_Split s sep) [sep] = s"
proof (induction s)
  case Nil
  show ?case by simp
next
  case (Cons c cs)
  obtain p ps where sp: "strings_Split cs sep = p # ps"
    using strings_Split_not_Nil [of cs sep] by (cases "strings_Split cs sep") auto
  show ?case
  proof (cases "c = sep")
    case True
    with sp Cons show ?thesis by simp
  next
    case False
    with sp Cons show ?thesis by (simp add: strings_Join_Cons_elem)
  qed
qed

section \<open>The two loops of the environment\<close>

text \<open>
  The first loop leaves the map of the override keys and the overrides themselves; the
  second appends what the map does not hold.
\<close>

lemma override_loop_eq:
  "override_loop es (ov, acc) =
     (\<lambda>k. if k \<in> env_key ` set es then Some True else ov k, acc @ es)"
  by (induction es arbitrary: ov acc) (auto simp: fun_eq_iff)

lemma inherit_loop_eq:
  "inherit_loop es ov acc = acc @ filter (\<lambda>e. ov (env_key e) = None) es"
  by (induction es arbitrary: acc) auto

lemma child_env_eq:
  "child_env et w =
     (if Env et = [] then None
      else Some (Env et @ filter (\<lambda>e. env_key e \<notin> env_key ` set (Env et)) (environ w)))"
  by (simp add: child_env_def override_loop_eq inherit_loop_eq)

section \<open>The command that is started\<close>

lemma spawned_build_Cmd:
  "spawned (Execute et ctx w) = Some c \<Longrightarrow> c = build_Cmd et w"
  by (auto simp: Execute_def Let_def split: if_splits option.splits prod.splits)

section \<open>The error of a context\<close>

text \<open>
  Once the error of a context is set it stays as it is, which is why the readings of
  lines 98 and 99 repeat the reading of line 94; and it is the error of what made the
  context expire.
\<close>

lemma ctx_Err_sticky:
  "ctx_Err c t = Some e \<Longrightarrow> t \<le> t' \<Longrightarrow> ctx_Err c t' = Some e"
  by (auto simp: ctx_Err_def split: option.splits if_splits)


lemma ctx_Err_range: "ctx_Err c t \<in> {None, Some Canceled, Some DeadlineExceeded}"
  by (auto simp: ctx_Err_def split: option.splits)

section \<open>Writes that succeed\<close>

lemma writer_Write_ok:
  "writer_Write w p = (w', n, None) \<Longrightarrow> written w' = written w @ p \<and> n = length p"
  by (auto simp: writer_Write_def split: option.splits if_splits)

lemma multiWriter_Write_ok:
  "multiWriter_Write ws p = (ws', n, None) \<Longrightarrow>
     received ws' = map (\<lambda>(d, s). (d, s @ p)) (received ws) \<and> n = length p"
proof (induction ws arbitrary: ws' n)
  case Nil
  then show ?case by (auto simp: received_def)
next
  case (Cons a ws)
  obtain d w where a: "a = (d, w)" by (cases a)
  obtain w1 n1 e1 where ww: "writer_Write w p = (w1, n1, e1)" by (cases "writer_Write w p")
  obtain ws1 n2 e2 where mw: "multiWriter_Write ws p = (ws1, n2, e2)"
    by (cases "multiWriter_Write ws p")
  from Cons.prems a ww mw have e1: "e1 = None" and n1: "n1 = length p"
    and e2: "e2 = None" and ws': "ws' = (d, w1) # ws1" and n: "n = n2"
    by (auto split: option.splits if_splits)
  from ww e1 have w1: "written w1 = written w @ p" by (simp add: writer_Write_ok)
  from Cons.IH [of ws1 n2] mw e2
  have "received ws1 = map (\<lambda>(d, s). (d, s @ p)) (received ws)" and "n2 = length p" by auto
  with a ws' w1 n show ?case by (simp add: received_def)
qed

lemma io_Copy_ok:
  "io_Copy ws ps = (ws', None) \<Longrightarrow>
     received ws' = map (\<lambda>(d, s). (d, s @ concat ps)) (received ws)"
proof (induction ps arbitrary: ws)
  case Nil
  then show ?case by (simp add: received_def case_prod_beta)
next
  case (Cons p ps)
  obtain ws1 n e where mw: "multiWriter_Write ws p = (ws1, n, e)"
    by (cases "multiWriter_Write ws p")
  from Cons.prems mw have e: "e = None" and rest: "io_Copy ws1 ps = (ws', None)"
    by (auto split: option.splits if_splits)
  from mw e have r1: "received ws1 = map (\<lambda>(d, s). (d, s @ p)) (received ws)"
    by (simp add: multiWriter_Write_ok)
  from Cons.IH [OF rest] r1 show ?case by (simp add: case_prod_beta)
qed

lemma multiWriter_Write_keys: "map fst (fst (multiWriter_Write ws p)) = map fst ws"
  by (induction ws p rule: multiWriter_Write.induct)
     (auto split: prod.splits option.splits)

lemma io_Copy_keys: "map fst (fst (io_Copy ws ps)) = map fst ws"
proof (induction ps arbitrary: ws)
  case Nil
  show ?case by simp
next
  case (Cons p ps)
  obtain ws1 n e where mw: "multiWriter_Write ws p = (ws1, n, e)"
    by (cases "multiWriter_Write ws p")
  have k: "map fst ws1 = map fst ws" using multiWriter_Write_keys [of ws p] mw by simp
  show ?case using mw k Cons.IH [of ws1] by (auto split: option.splits)
qed

lemma delivered_received: "delivered d ws = map_of (received ws) d"
  by (induction ws) (auto simp: delivered_def received_def)

lemma map_of_append_snd:
  "map_of (map (\<lambda>(d, s). (d, s @ x)) rs) d = map_option (\<lambda>s. s @ x) (map_of rs d)"
  by (induction rs) auto

lemma buffer_String_absent: "Buffer \<notin> set (map fst ws) \<Longrightarrow> buffer_String ws = []"
  by (simp add: buffer_String_def map_of_eq_None_iff [THEN iffD2])

section \<open>The path of a started process\<close>

lemma Execute_started:
  assumes "process_started et ctx0 w"
  shows "Execute et ctx0 w =
     (let ctx = task_context et ctx0 w;
          ch = the_child et w;
          execStart = entered w + lag_check w + lag_start w;
          outs = io_Copy (stdoutWriters et w) (out_chunks ch);
          errs = io_Copy (stderrWriters et w) (err_chunks ch);
          pe = process_end ctx execStart ch;
          execErr = cmd_Wait (fst pe) (snd outs) (snd errs);
          execEnd = snd pe + lag_wait w;
          t1 = execEnd + lag_timedout w
      in \<lparr>ret = \<lparr>Stdout = buffer_String (fst outs),
                 Stderr = buffer_String (fst errs),
                 ExitCode = (case execErr of Some (ExitError c) \<Rightarrow> c | _ \<Rightarrow> 0),
                 Timedout = (ctx_Err ctx t1 = Some DeadlineExceeded),
                 Cancelled = (ctx_Err ctx (t1 + lag_cancelled w) = Some Canceled),
                 Duration = int execEnd - int execStart\<rparr>,
          err = ctx_Err ctx (t1 + lag_cancelled w + lag_err w),
          printed = (if PrintCommand et
                     then [Println [''exec: '', Command et,
                            if 0 < length (Args et) then strings_Join (Args et) '' '' else []]]
                     else []),
          spawned = Some (build_Cmd et w),
          stdout_dests = fst outs, stderr_dests = fst errs\<rparr>)"
  using assms
  by (simp add: Execute_def process_started_def the_child_def Let_def split: prod.splits)

section \<open>Facts about the sample world\<close>

lemma sample_not_expired [simp]: "ctx_Err background t = None"
  by (simp add: ctx_Err_def background_def)

lemma spawned_sample:
  "Timeout et \<le> 0 \<Longrightarrow>
     spawned (Execute et background sample_world) = Some (build_Cmd et sample_world)"
  by (simp add: Execute_def task_context_def Let_def cmd_Start_def sample_world_def
      sample_child_def split: prod.splits)

lemma env_key_samples:
  "env_key ''HOME=/tmp'' = ''HOME''" "env_key ''FOO=1'' = ''FOO''"
  "env_key ''PATH=/bin'' = ''PATH''" "env_key ''HOME=/root'' = ''HOME''"
  "env_key ''LANG=C'' = ''LANG''"
  by (simp_all add: env_key_def)

lemma sample_child_of: "the_child et sample_world = sample_child"
  by (simp add: the_child_def sample_world_def)

lemma closed_child_of: "the_child et closed_stdout_world = sample_child"
  by (simp add: the_child_def closed_stdout_world_def sample_world_def)

lemma closed_started:
  "Timeout et \<le> 0 \<Longrightarrow> process_started et background closed_stdout_world"
  by (simp add: process_started_def cmd_Start_def task_context_def closed_child_of
      sample_child_def)

lemma background_started:
  "Timeout et \<le> 0 \<Longrightarrow> process_started et background sample_world"
  by (simp add: process_started_def cmd_Start_def task_context_def sample_child_of
      sample_child_def)

lemma err_background:
  "process_started et background w \<Longrightarrow> Timeout et \<le> 0 \<Longrightarrow>
     err (Execute et background w) = None"
  by (simp add: Execute_started Let_def task_context_def)

section \<open>The command builder\<close>

text \<open>
  Claim C3. For a task with \<open>Shell = False\<close>, the command handed to process creation
  has the executable \<open>Command\<close> and the argument vector \<open>[Command] + Args\<close>, each string
  as it is: nothing is split at a space.
\<close>

theorem C3_direct_argv_verbatim:
  "\<not> Shell et \<Longrightarrow> spawned (Execute et ctx w) = Some c \<Longrightarrow>
     cmd_Path c = Command et \<and> cmd_Args c = Command et # Args et"
  by (drule spawned_build_Cmd)
     (simp add: build_Cmd_def command_line_def exec_CommandContext_def)

theorem C3_direct_argv_verbatim_witness:
  "\<not> Shell direct_task \<and>
   spawned (Execute direct_task background sample_world) =
     Some (build_Cmd direct_task sample_world) \<and>
   cmd_Path (build_Cmd direct_task sample_world) = ''/opt/my tools/run'' \<and>
   cmd_Args (build_Cmd direct_task sample_world) = [''/opt/my tools/run'', ''a b'', ''c'']"
proof -
  have h1: "\<not> Shell direct_task" by (simp add: direct_task_def ExecTask_zero_def)
  have h2: "spawned (Execute direct_task background sample_world) =
      Some (build_Cmd direct_task sample_world)"
    by (rule spawned_sample) (simp add: direct_task_def ExecTask_zero_def)
  from C3_direct_argv_verbatim [OF h1 h2] h1 h2 show ?thesis
    by (simp add: direct_task_def ExecTask_zero_def)
qed

text \<open>
  Claim C5. For a task with \<open>Shell = True\<close>, the argument vector handed to process
  creation is the shell (\<^verbatim>\<open>sh\<close>, or \<^verbatim>\<open>/usr/bin/sh\<close> when \<^verbatim>\<open>sh\<close> is not found on the
  search path), \<^verbatim>\<open>-c\<close> and a script. With arguments, the script is \<open>Command\<close>,
  a space, and the arguments joined by single spaces. Without arguments, the script is
  \<open>Command\<close> split at the spaces and joined again by single spaces, which gives back
  \<open>Command\<close> itself.
\<close>

theorem C5_shell_script:
  "Shell et \<Longrightarrow> spawned (Execute et ctx w) = Some c \<Longrightarrow>
     cmd_Path c = (if lookPath w ''sh'' then ''sh'' else ''/usr/bin/sh'')
   \<and> (Args et \<noteq> [] \<longrightarrow>
        cmd_Args c = [cmd_Path c, ''-c'', Command et @ '' '' @ strings_Join (Args et) '' ''])
   \<and> (Args et = [] \<longrightarrow>
        strings_Join (strings_Split (Command et) CHR '' '') '' '' = Command et
        \<and> cmd_Args c = [cmd_Path c, ''-c'', Command et])"
  by (drule spawned_build_Cmd)
     (simp add: build_Cmd_def command_line_def exec_CommandContext_def Let_def
        strings_Join_Split)

theorem C5_shell_script_witness:
  "(Shell shell_task_args \<and>
    spawned (Execute shell_task_args background sample_world) =
      Some (build_Cmd shell_task_args sample_world) \<and>
    Args shell_task_args \<noteq> [] \<and>
    cmd_Args (build_Cmd shell_task_args sample_world) = [''sh'', ''-c'', ''ls -l /tmp /var''])
   \<and>
   (Shell shell_task_plain \<and>
    spawned (Execute shell_task_plain background sample_world) =
      Some (build_Cmd shell_task_plain sample_world) \<and>
    Args shell_task_plain = [] \<and>
    cmd_Args (build_Cmd shell_task_plain sample_world) = [''sh'', ''-c'', ''echo  a | wc''])"
proof -
  have a1: "Shell shell_task_args" and a3: "Args shell_task_args \<noteq> []"
    by (simp_all add: shell_task_args_def ExecTask_zero_def)
  have a2: "spawned (Execute shell_task_args background sample_world) =
      Some (build_Cmd shell_task_args sample_world)"
    by (rule spawned_sample) (simp add: shell_task_args_def ExecTask_zero_def)
  have p1: "Shell shell_task_plain" and p3: "Args shell_task_plain = []"
    by (simp_all add: shell_task_plain_def ExecTask_zero_def)
  have p2: "spawned (Execute shell_task_plain background sample_world) =
      Some (build_Cmd shell_task_plain sample_world)"
    by (rule spawned_sample) (simp add: shell_task_plain_def ExecTask_zero_def)
  have sh: "cmd_Path (build_Cmd et sample_world) = ''sh''" if "Shell et" for et
    using that
    by (simp add: build_Cmd_def command_line_def exec_CommandContext_def Let_def
        sample_world_def split: prod.splits)
  have a: "cmd_Args (build_Cmd shell_task_args sample_world) =
      [''sh'', ''-c'', ''ls -l /tmp /var'']"
    using C5_shell_script [OF a1 a2] a3 sh [OF a1]
    by (simp add: shell_task_args_def ExecTask_zero_def)
  have p: "cmd_Args (build_Cmd shell_task_plain sample_world) =
      [''sh'', ''-c'', ''echo  a | wc'']"
    using C5_shell_script [OF p1 p2] p3 sh [OF p1]
    by (simp add: shell_task_plain_def ExecTask_zero_def)
  from a1 a2 a3 a p1 p2 p3 p show ?thesis by simp
qed

section \<open>The environment of the child\<close>

text \<open>
  Claim C4. With a non-empty list of overrides, the environment list of the command is
  the overrides followed by the entries of the current environment whose key is not the
  key of an override, in their order; so every override is in the list, and no entry
  after the overrides has the key of an override. With an empty list of overrides no
  environment list is set, and the child inherits the current environment.
\<close>

theorem C4_child_environment:
  "spawned (Execute et ctx w) = Some c \<Longrightarrow>
     (Env et \<noteq> [] \<longrightarrow>
        (\<exists>env. cmd_Env c = Some env
           \<and> env = Env et @ filter (\<lambda>e. env_key e \<notin> env_key ` set (Env et)) (environ w)
           \<and> (\<forall>e \<in> set (Env et). e \<in> set env)
           \<and> (\<forall>e \<in> set (drop (length (Env et)) env).
                 env_key e \<notin> env_key ` set (Env et))))
   \<and> (Env et = [] \<longrightarrow> cmd_Env c = None)"
  by (drule spawned_build_Cmd)
     (simp add: build_Cmd_def child_env_eq exec_CommandContext_def split: prod.splits)

theorem C4_child_environment_witness:
  "spawned (Execute env_task background sample_world) = Some (build_Cmd env_task sample_world)
   \<and> Env env_task \<noteq> []
   \<and> cmd_Env (build_Cmd env_task sample_world) =
       Some [''HOME=/tmp'', ''FOO=1'', ''PATH=/bin'', ''LANG=C'']
   \<and> spawned (Execute direct_task background sample_world) =
       Some (build_Cmd direct_task sample_world)
   \<and> Env direct_task = []
   \<and> cmd_Env (build_Cmd direct_task sample_world) = None"
proof -
  have e1: "spawned (Execute env_task background sample_world) =
      Some (build_Cmd env_task sample_world)"
    by (rule spawned_sample) (simp add: env_task_def ExecTask_zero_def)
  have e2: "Env env_task = [''HOME=/tmp'', ''FOO=1'']"
    by (simp add: env_task_def ExecTask_zero_def)
  have e3: "environ sample_world = [''PATH=/bin'', ''HOME=/root'', ''LANG=C'']"
    by (simp add: sample_world_def)
  have d1: "spawned (Execute direct_task background sample_world) =
      Some (build_Cmd direct_task sample_world)"
    by (rule spawned_sample) (simp add: direct_task_def ExecTask_zero_def)
  have d2: "Env direct_task = []" by (simp add: direct_task_def ExecTask_zero_def)
  have a: "cmd_Env (build_Cmd env_task sample_world) =
      Some [''HOME=/tmp'', ''FOO=1'', ''PATH=/bin'', ''LANG=C'']"
    using C4_child_environment [OF e1] by (simp add: e2 e3 env_key_samples)
  have b: "cmd_Env (build_Cmd direct_task sample_world) = None"
    using C4_child_environment [OF d1] d2 by simp
  from e1 e2 d1 d2 a b show ?thesis by simp
qed

section \<open>The script helper's options\<close>

text \<open>
  Claim C10. \<^verbatim>\<open>WithShell("")\<close> leaves a task as it is, so on the default task of the
  helper the interpreter stays \<^verbatim>\<open>sh\<close> and the shell flag stays set; for a string that
  is not empty, \<^verbatim>\<open>WithShell(s)\<close> sets \<open>Command\<close> to \<open>s\<close> and \<open>Shell\<close> to true.
\<close>

theorem C10_WithShell:
  "WithShell [] et = et
   \<and> Command (WithShell [] (default_task p)) = ''sh''
   \<and> Shell (WithShell [] (default_task p))
   \<and> (s \<noteq> [] \<longrightarrow> WithShell s et = et\<lparr>Command := s, Shell := True\<rparr>)"
  by (simp add: WithShell_def default_task_def)

theorem C10_WithShell_witness:
  "''bash'' \<noteq> [] \<and>
   WithShell ''bash'' (default_task ''/tmp/run.sh'') =
     ExecTask_zero\<lparr>Command := ''bash'', Args := [''/tmp/run.sh''], Shell := True\<rparr>"
  using C10_WithShell [of "default_task ''/tmp/run.sh''" "''/tmp/run.sh''" "''bash''"]
  by (simp add: default_task_def)

section \<open>The script helper\<close>







section \<open>The flags of a result\<close>


section \<open>Timeouts\<close>







section \<open>A context that has expired before the process is created\<close>

lemma Execute_expired:
  assumes "ctx_Err (task_context et ctx w) (entered w + lag_check w) = Some e"
  shows "ret (Execute et ctx w) = ExecResult_zero\<lparr>ExitCode := - 1, Cancelled := (e = Canceled)\<rparr>"
    and "err (Execute et ctx w) = Some e"
    and "spawned (Execute et ctx w) = None"
  using assms by (simp_all add: Execute_def Let_def)

text \<open>
  Claim C2 asks that a call whose context has expired before the process is created
  returns at once, with no process, \<open>ExitCode = -1\<close> and the flag of the cause set. The
  early return of lines 94 to 100 sets \<open>ExitCode\<close> and \<open>Cancelled\<close> and leaves \<open>Timedout\<close>
  at its zero value. So under a context whose deadline has passed, the call returns
  with no process, \<open>ExitCode = -1\<close> and the deadline error, and with neither flag set.
\<close>

theorem C2_expired_deadline_not_flagged:
  "ctx_Err expired_deadline (entered sample_world) = Some DeadlineExceeded
   \<and> ret (Execute direct_task expired_deadline sample_world) =
       \<lparr>Stdout = [], Stderr = [], ExitCode = - 1, Timedout = False, Cancelled = False,
        Duration = 0\<rparr>
   \<and> err (Execute direct_task expired_deadline sample_world) = Some DeadlineExceeded
   \<and> spawned (Execute direct_task expired_deadline sample_world) = None"
proof -
  have e: "ctx_Err (task_context direct_task expired_deadline sample_world)
      (entered sample_world + lag_check sample_world) = Some DeadlineExceeded"
    by (simp add: task_context_def direct_task_def ExecTask_zero_def expired_deadline_def
        ctx_Err_def sample_world_def)
  have e0: "ctx_Err expired_deadline (entered sample_world) = Some DeadlineExceeded"
    by (simp add: expired_deadline_def ctx_Err_def sample_world_def)
  show ?thesis
    by (simp add: Execute_expired [OF e] e0 ExecResult_zero_def)
qed

section \<open>The fan-out of the output\<close>

lemma copy_delivered:
  assumes "snd (io_Copy ws ps) = None"
  shows "delivered d (fst (io_Copy ws ps)) = map_option (\<lambda>s. s @ concat ps) (delivered d ws)"
proof -
  from assms have "io_Copy ws ps = (fst (io_Copy ws ps), None)"
    by (metis prod.collapse)
  from io_Copy_ok [OF this] show ?thesis
    by (simp add: delivered_received map_of_append_snd)
qed

lemma copy_received:
  assumes "snd (io_Copy ws ps) = None"
  shows "received (fst (io_Copy ws ps)) = map (\<lambda>(d, s). (d, s @ concat ps)) (received ws)"
proof -
  from assms have "io_Copy ws ps = (fst (io_Copy ws ps), None)"
    by (metis prod.collapse)
  from io_Copy_ok [OF this] show ?thesis .
qed

lemma buffer_String_copy:
  "Buffer \<notin> set (map fst ws) \<Longrightarrow> buffer_String (fst (io_Copy ws ps)) = []"
  by (rule buffer_String_absent) (simp add: io_Copy_keys)

lemma no_Buffer_stdout:
  "DisableStdioBuffer et \<Longrightarrow> Buffer \<notin> set (map fst (stdoutWriters et w))"
  by (auto simp: stdoutWriters_def split: option.splits)

lemma no_Buffer_stderr:
  "DisableStdioBuffer et \<Longrightarrow> Buffer \<notin> set (map fst (stderrWriters et w))"
  by (auto simp: stderrWriters_def split: option.splits)

lemma sink_stdout:
  "StdOutWriter et = Some s \<Longrightarrow> delivered CallerSink (stdoutWriters et w) = Some (written s)"
  by (simp add: delivered_def stdoutWriters_def map_add_def split: option.splits)

lemma sink_stderr:
  "StdErrWriter et = Some s \<Longrightarrow> delivered CallerSink (stderrWriters et w) = Some (written s)"
  by (simp add: delivered_def stderrWriters_def map_add_def split: option.splits)

lemma Execute_not_started:
  "\<not> process_started et ctx w \<Longrightarrow> Stdout (ret (Execute et ctx w)) = []
     \<and> Stderr (ret (Execute et ctx w)) = []"
  by (auto simp: Execute_def Let_def process_started_def the_child_def ExecResult_zero_def
      split: option.splits)

lemma writer_Write_accepts:
  "accepts wr (length p + n) \<Longrightarrow>
     \<exists>wr'. writer_Write wr p = (wr', length p, None) \<and> accepts wr' n"
  by (auto simp: accepts_def writer_Write_def split: option.splits)

lemma multiWriter_Write_accepts:
  "list_all (\<lambda>(d, wr). accepts wr (length p + n)) ws \<Longrightarrow>
     \<exists>ws'. multiWriter_Write ws p = (ws', length p, None)
           \<and> list_all (\<lambda>(d, wr). accepts wr n) ws'"
proof (induction ws)
  case Nil
  show ?case by simp
next
  case (Cons a ws)
  obtain d wr where a: "a = (d, wr)" by (cases a)
  from Cons.prems a have h: "accepts wr (length p + n)"
    and t: "list_all (\<lambda>(d, wr). accepts wr (length p + n)) ws" by simp_all
  from writer_Write_accepts [OF h] obtain wr' where
    w: "writer_Write wr p = (wr', length p, None)" and w': "accepts wr' n" by blast
  from Cons.IH [OF t] obtain ws' where
    m: "multiWriter_Write ws p = (ws', length p, None)"
    and m': "list_all (\<lambda>(d, wr). accepts wr n) ws'" by blast
  show ?case using a w w' m m' by simp
qed

lemma io_Copy_accepts: "all_accept ws ps \<Longrightarrow> snd (io_Copy ws ps) = None"
  unfolding all_accept_def
proof (induction ps arbitrary: ws)
  case Nil
  show ?case by simp
next
  case (Cons p ps)
  from Cons.prems
  have "list_all (\<lambda>(d, wr). accepts wr (length p + length (concat ps))) ws" by simp
  from multiWriter_Write_accepts [OF this] obtain ws' where
    m: "multiWriter_Write ws p = (ws', length p, None)"
    and m': "list_all (\<lambda>(d, wr). accepts wr (length (concat ps))) ws'" by blast
  from Cons.IH [OF m'] m show ?case by simp
qed

text \<open>
  Claim C8, amended. For a task with \<open>DisableStdioBuffer = True\<close>, \<open>Stdout\<close> and \<open>Stderr\<close>
  of the result are empty, whatever the child writes. When the process has been started
  and every destination of a stream accepts all the bytes of the stream, so that no
  write fails, a sink that the caller supplied for the stream holds afterwards what it
  held before followed by all the bytes that the child wrote to the stream, in their
  order.
\<close>

theorem C8_unbuffered:
  assumes off: "DisableStdioBuffer et"
  shows "Stdout (ret (Execute et ctx w)) = []
       \<and> Stderr (ret (Execute et ctx w)) = []
       \<and> (\<forall>s. process_started et ctx w \<and> StdOutWriter et = Some s
               \<and> all_accept (stdoutWriters et w) (out_chunks (the_child et w))
             \<longrightarrow> delivered CallerSink (stdout_dests (Execute et ctx w)) =
                   Some (written s @ concat (out_chunks (the_child et w))))
       \<and> (\<forall>s. process_started et ctx w \<and> StdErrWriter et = Some s
               \<and> all_accept (stderrWriters et w) (err_chunks (the_child et w))
             \<longrightarrow> delivered CallerSink (stderr_dests (Execute et ctx w)) =
                   Some (written s @ concat (err_chunks (the_child et w))))"
proof -
  have empty: "Stdout (ret (Execute et ctx w)) = [] \<and> Stderr (ret (Execute et ctx w)) = []"
  proof (cases "process_started et ctx w")
    case True
    show ?thesis
      by (simp add: Execute_started [OF True] Let_def
          buffer_String_copy [OF no_Buffer_stdout [OF off]]
          buffer_String_copy [OF no_Buffer_stderr [OF off]])
  next
    case False
    then show ?thesis by (rule Execute_not_started)
  qed
  have out: "delivered CallerSink (stdout_dests (Execute et ctx w)) =
      Some (written s @ concat (out_chunks (the_child et w)))"
    if "process_started et ctx w" "StdOutWriter et = Some s"
      "all_accept (stdoutWriters et w) (out_chunks (the_child et w))" for s
    using that
    by (simp add: Execute_started Let_def copy_delivered io_Copy_accepts sink_stdout)
  have err: "delivered CallerSink (stderr_dests (Execute et ctx w)) =
      Some (written s @ concat (err_chunks (the_child et w)))"
    if "process_started et ctx w" "StdErrWriter et = Some s"
      "all_accept (stderrWriters et w) (err_chunks (the_child et w))" for s
    using that
    by (simp add: Execute_started Let_def copy_delivered io_Copy_accepts sink_stderr)
  from empty out err show ?thesis by blast
qed

text \<open>
  Claim C1, amended. When the process has been started and no write to a destination
  of a stream fails, every enabled destination of the stream (file, internal buffer,
  stream of the process, sink of the caller) holds afterwards what it held before
  followed by all the bytes that the child wrote to the stream, in their order: each
  destination gets the same copy. A failed write is never the error of the call: once
  the process has been started, the error returned is nil or the error of the context.
  (What the destinations hold after a failed write is not part of the statement.)
\<close>

theorem C1_fanout_without_failure:
  assumes started: "process_started et ctx w"
  shows "(snd (io_Copy (stdoutWriters et w) (out_chunks (the_child et w))) = None \<longrightarrow>
           received (stdout_dests (Execute et ctx w)) =
             map (\<lambda>(d, s). (d, s @ concat (out_chunks (the_child et w))))
               (received (stdoutWriters et w)))
       \<and> (snd (io_Copy (stderrWriters et w) (err_chunks (the_child et w))) = None \<longrightarrow>
           received (stderr_dests (Execute et ctx w)) =
             map (\<lambda>(d, s). (d, s @ concat (err_chunks (the_child et w))))
               (received (stderrWriters et w)))
       \<and> err (Execute et ctx w) \<in> {None, Some Canceled, Some DeadlineExceeded}"
  using ctx_Err_range
  by (simp add: Execute_started [OF started] Let_def copy_received)

theorem C8_unbuffered_witness:
  "DisableStdioBuffer unbuffered_fanout_task
   \<and> process_started unbuffered_fanout_task background sample_world
   \<and> map fst (stdoutWriters unbuffered_fanout_task sample_world) =
       [RawFile, ProcessStdio, CallerSink]
   \<and> all_accept (stdoutWriters unbuffered_fanout_task sample_world)
       (out_chunks (the_child unbuffered_fanout_task sample_world))
   \<and> all_accept (stderrWriters unbuffered_fanout_task sample_world)
       (err_chunks (the_child unbuffered_fanout_task sample_world))
   \<and> concat (out_chunks (the_child unbuffered_fanout_task sample_world)) = ''hi there''
   \<and> Stdout (ret (Execute unbuffered_fanout_task background sample_world)) = []
   \<and> Stderr (ret (Execute unbuffered_fanout_task background sample_world)) = []
   \<and> delivered CallerSink
       (stdout_dests (Execute unbuffered_fanout_task background sample_world)) =
       Some ''log: hi there''
   \<and> delivered CallerSink
       (stderr_dests (Execute unbuffered_fanout_task background sample_world)) =
       Some ''warn''"
proof -
  have off: "DisableStdioBuffer unbuffered_fanout_task"
    by (simp add: unbuffered_fanout_task_def ExecTask_zero_def)
  have st: "process_started unbuffered_fanout_task background sample_world"
    by (rule background_started) (simp add: unbuffered_fanout_task_def ExecTask_zero_def)
  have o: "StdOutWriter unbuffered_fanout_task = Some (Writer ''log: '' None)"
    and e: "StdErrWriter unbuffered_fanout_task = Some (Writer [] None)"
    by (simp_all add: unbuffered_fanout_task_def ExecTask_zero_def)
  have chunks:
    "out_chunks (the_child unbuffered_fanout_task sample_world) = [''hi'', '' there'']"
    "err_chunks (the_child unbuffered_fanout_task sample_world) = [''warn'']"
    by (simp_all add: sample_child_of sample_child_def)
  have wo: "stdoutWriters unbuffered_fanout_task sample_world =
      [(RawFile, Writer [] (Some 100)), (ProcessStdio, Writer [] None),
       (CallerSink, Writer ''log: '' None)]"
    by (simp add: stdoutWriters_def unbuffered_fanout_task_def ExecTask_zero_def
        sample_world_def)
  have we: "stderrWriters unbuffered_fanout_task sample_world =
      [(ProcessStdio, Writer [] None), (CallerSink, Writer [] None)]"
    by (simp add: stderrWriters_def unbuffered_fanout_task_def ExecTask_zero_def
        sample_world_def)
  have ao: "all_accept (stdoutWriters unbuffered_fanout_task sample_world)
      (out_chunks (the_child unbuffered_fanout_task sample_world))"
    unfolding chunks wo by (simp add: all_accept_def accepts_def)
  have ae: "all_accept (stderrWriters unbuffered_fanout_task sample_world)
      (err_chunks (the_child unbuffered_fanout_task sample_world))"
    unfolding chunks we by (simp add: all_accept_def accepts_def)
  have k: "map fst (stdoutWriters unbuffered_fanout_task sample_world) =
      [RawFile, ProcessStdio, CallerSink]"
    unfolding wo by simp
  from C8_unbuffered [OF off, of background sample_world] st o e ao ae
  show ?thesis using off k by (simp add: chunks)
qed

text \<open>
  Claim C8 as it was stated fails. The same task runs in a world whose standard output
  is closed. The child writes \<^verbatim>\<open>hi\<close> and then \<^verbatim>\<open> there\<close>; the write of the first chunk to
  the closed stream fails, and the sink of the caller, which comes after it, still holds
  what it held before and nothing of what the child wrote. The call returns no error.
\<close>

theorem C8_closed_stream_starves_sink:
  "DisableStdioBuffer unbuffered_fanout_task
   \<and> StdOutWriter unbuffered_fanout_task = Some (Writer ''log: '' None)
   \<and> process_started unbuffered_fanout_task background closed_stdout_world
   \<and> concat (out_chunks (the_child unbuffered_fanout_task closed_stdout_world)) = ''hi there''
   \<and> received (stdout_dests (Execute unbuffered_fanout_task background closed_stdout_world)) =
       [(RawFile, ''hi''), (ProcessStdio, []), (CallerSink, ''log: '')]
   \<and> delivered CallerSink
       (stdout_dests (Execute unbuffered_fanout_task background closed_stdout_world)) =
       Some ''log: ''
   \<and> err (Execute unbuffered_fanout_task background closed_stdout_world) = None"
proof -
  have off: "DisableStdioBuffer unbuffered_fanout_task"
    and o: "StdOutWriter unbuffered_fanout_task = Some (Writer ''log: '' None)"
    and t: "Timeout unbuffered_fanout_task \<le> 0"
    by (simp_all add: unbuffered_fanout_task_def ExecTask_zero_def)
  have st: "process_started unbuffered_fanout_task background closed_stdout_world"
    by (rule closed_started [OF t])
  have chunks:
    "out_chunks (the_child unbuffered_fanout_task closed_stdout_world) = [''hi'', '' there'']"
    by (simp add: closed_child_of sample_child_def)
  have ws: "stdoutWriters unbuffered_fanout_task closed_stdout_world =
      [(RawFile, Writer [] (Some 100)), (ProcessStdio, Writer [] (Some 0)),
       (CallerSink, Writer ''log: '' None)]"
    by (simp add: stdoutWriters_def unbuffered_fanout_task_def ExecTask_zero_def
        closed_stdout_world_def sample_world_def)
  have cp: "io_Copy (stdoutWriters unbuffered_fanout_task closed_stdout_world)
       (out_chunks (the_child unbuffered_fanout_task closed_stdout_world)) =
      ([(RawFile, Writer ''hi'' (Some 98)), (ProcessStdio, Writer [] (Some 0)),
        (CallerSink, Writer ''log: '' None)], Some WriteError)"
    unfolding chunks ws by (simp add: writer_Write_def)
  have c: "concat (out_chunks (the_child unbuffered_fanout_task closed_stdout_world)) =
      ''hi there''"
    unfolding chunks by simp
  have r: "received (stdout_dests (Execute unbuffered_fanout_task background closed_stdout_world)) =
       [(RawFile, ''hi''), (ProcessStdio, []), (CallerSink, ''log: '')]"
    by (simp add: Execute_started [OF st] Let_def cp received_def)
  have d: "delivered CallerSink
       (stdout_dests (Execute unbuffered_fanout_task background closed_stdout_world)) =
       Some ''log: ''"
    by (simp add: Execute_started [OF st] Let_def cp delivered_def)
  have e: "err (Execute unbuffered_fanout_task background closed_stdout_world) = None"
    by (rule err_background [OF st t])
  from off o st c r d e show ?thesis by simp
qed

theorem C1_fanout_without_failure_witness:
  "process_started streaming_task background sample_world
   \<and> snd (io_Copy (stdoutWriters streaming_task sample_world)
        (out_chunks (the_child streaming_task sample_world))) = None
   \<and> snd (io_Copy (stderrWriters streaming_task sample_world)
        (err_chunks (the_child streaming_task sample_world))) = None
   \<and> received (stdout_dests (Execute streaming_task background sample_world)) =
       [(Buffer, ''hi there''), (ProcessStdio, ''hi there''), (CallerSink, ''hi there'')]
   \<and> received (stderr_dests (Execute streaming_task background sample_world)) =
       [(Buffer, ''warn''), (ProcessStdio, ''warn'')]"
proof -
  have st: "process_started streaming_task background sample_world"
    by (rule background_started) (simp add: streaming_task_def ExecTask_zero_def)
  have chunks: "out_chunks (the_child streaming_task sample_world) = [''hi'', '' there'']"
    "err_chunks (the_child streaming_task sample_world) = [''warn'']"
    by (simp_all add: sample_child_of sample_child_def)
  have wo: "stdoutWriters streaming_task sample_world =
      [(Buffer, Writer [] None), (ProcessStdio, Writer [] None), (CallerSink, Writer [] None)]"
    by (simp add: stdoutWriters_def streaming_task_def ExecTask_zero_def sample_world_def
        bytes_Buffer_def)
  have we: "stderrWriters streaming_task sample_world =
      [(Buffer, Writer [] None), (ProcessStdio, Writer [] None)]"
    by (simp add: stderrWriters_def streaming_task_def ExecTask_zero_def sample_world_def
        bytes_Buffer_def)
  have oc: "snd (io_Copy (stdoutWriters streaming_task sample_world)
      (out_chunks (the_child streaming_task sample_world))) = None"
    unfolding chunks wo by (simp add: writer_Write_def)
  have ec: "snd (io_Copy (stderrWriters streaming_task sample_world)
      (err_chunks (the_child streaming_task sample_world))) = None"
    unfolding chunks we by (simp add: writer_Write_def)
  have ro: "received (stdoutWriters streaming_task sample_world) =
      [(Buffer, []), (ProcessStdio, []), (CallerSink, [])]"
    unfolding wo by (simp add: received_def)
  have re: "received (stderrWriters streaming_task sample_world) =
      [(Buffer, []), (ProcessStdio, [])]"
    unfolding we by (simp add: received_def)
  from C1_fanout_without_failure [OF st] oc ec
  show ?thesis using st by (simp add: ro re chunks)
qed

text \<open>
  Claim C1 as it was stated fails. The task has three destinations for its standard
  output: the internal buffer, the standard output of the process, which is closed, and
  a sink of the caller. The child writes \<^verbatim>\<open>hi\<close> and then \<^verbatim>\<open> there\<close>. The buffer gets the
  first chunk; the write to the closed stream fails; the sink, which comes after it,
  gets nothing, and the second chunk reaches no destination. The call returns no error.
\<close>

theorem C1_failed_write_starves_others:
  "concat (out_chunks (the_child streaming_task closed_stdout_world)) = ''hi there''
   \<and> received (stdoutWriters streaming_task closed_stdout_world) =
       [(Buffer, []), (ProcessStdio, []), (CallerSink, [])]
   \<and> received (stdout_dests (Execute streaming_task background closed_stdout_world)) =
       [(Buffer, ''hi''), (ProcessStdio, []), (CallerSink, [])]
   \<and> Stdout (ret (Execute streaming_task background closed_stdout_world)) = ''hi''
   \<and> err (Execute streaming_task background closed_stdout_world) = None"
proof -
  have st: "process_started streaming_task background closed_stdout_world"
    by (rule closed_started) (simp add: streaming_task_def ExecTask_zero_def)
  have chunks: "out_chunks (the_child streaming_task closed_stdout_world) = [''hi'', '' there'']"
    by (simp add: closed_child_of sample_child_def)
  have ws: "stdoutWriters streaming_task closed_stdout_world =
      [(Buffer, Writer [] None), (ProcessStdio, Writer [] (Some 0)),
       (CallerSink, Writer [] None)]"
    by (simp add: stdoutWriters_def streaming_task_def ExecTask_zero_def
        closed_stdout_world_def sample_world_def bytes_Buffer_def)
  have cp: "io_Copy (stdoutWriters streaming_task closed_stdout_world)
       (out_chunks (the_child streaming_task closed_stdout_world)) =
      ([(Buffer, Writer ''hi'' None), (ProcessStdio, Writer [] (Some 0)),
        (CallerSink, Writer [] None)], Some WriteError)"
    unfolding chunks ws by (simp add: writer_Write_def)
  have c: "concat (out_chunks (the_child streaming_task closed_stdout_world)) = ''hi there''"
    unfolding chunks by simp
  have r0: "received (stdoutWriters streaming_task closed_stdout_world) =
       [(Buffer, []), (ProcessStdio, []), (CallerSink, [])]"
    unfolding ws by (simp add: received_def)
  have r1: "received (stdout_dests (Execute streaming_task background closed_stdout_world)) =
       [(Buffer, ''hi''), (ProcessStdio, []), (CallerSink, [])]"
    by (simp add: Execute_started [OF st] Let_def cp received_def)
  have s: "Stdout (ret (Execute streaming_task background closed_stdout_world)) = ''hi''"
    by (simp add: Execute_started [OF st] Let_def cp buffer_String_def)
  have tc: "task_context streaming_task background closed_stdout_world = background"
    by (simp add: task_context_def streaming_task_def ExecTask_zero_def)
  have e: "err (Execute streaming_task background closed_stdout_world) = None"
    by (simp add: Execute_started [OF st] Let_def tc)
  from c r0 r1 s e show ?thesis by simp
qed

end
